theory Spec2Isabelle
  imports Complex_Main "HOL-Library.Word"
begin

section \<open>The scoring wrapper of score.py (class MLModel)\<close>

text \<open>
  The notebook writes \<^verbatim>\<open>score.py\<close>, whose class \<^verbatim>\<open>MLModel\<close> has the methods
  \<^verbatim>\<open>Preprocess\<close>, \<^verbatim>\<open>Postprocess\<close> and \<^verbatim>\<open>Score\<close>. Every method body is wrapped in
  \<^verbatim>\<open>try: ... except: PrintGetExceptionDetails()\<close>: an exception raised inside is
  logged and the method then returns Python's \<^verbatim>\<open>None\<close>. A method is therefore
  modelled in two layers: a body that returns \<open>exn + 'a\<close> (\<open>Inl\<close> the exception
  raised), and the method itself, which returns the log entries written and an
  optional result (\<open>None\<close> is Python's \<^verbatim>\<open>None\<close>).

  float32 and float64 values are idealised as real numbers.
\<close>

subsection \<open>Exceptions and the swallowing handler\<close>

datatype exn = IndexError | ValueError | Cv2Error | OrtError

text \<open>\<^verbatim>\<open>except: PrintGetExceptionDetails()\<close>: one log entry for the exception caught,
  and the method falls off its end.\<close>

definition swallow :: "exn + 'a \<Rightarrow> exn list \<times> 'a option" where
  "swallow r = (case r of Inl e \<Rightarrow> ([e], None) | Inr v \<Rightarrow> ([], Some v))"

subsection \<open>numpy and Python primitives used by Postprocess\<close>

text \<open>\<^verbatim>\<open>np.sort\<close> and \<^verbatim>\<open>np.argsort\<close> work along the last axis, and
  \<^verbatim>\<open>np.squeeze\<close> then removes every axis of length 1 (the list of outputs and the
  batch axis), so the argument of \<^verbatim>\<open>Postprocess\<close> is modelled by its vector of
  scores. A vector of length 1 is squeezed to a zero-dimensional array.\<close>

datatype 'a squeezed = Arr0 'a | Arr1 "'a list"

fun squeeze :: "'a list \<Rightarrow> 'a squeezed" where
  "squeeze [x] = Arr0 x"
| "squeeze xs = Arr1 xs"

text \<open>\<^verbatim>\<open>a[::-1]\<close>: a zero-dimensional array cannot be sliced.\<close>

fun rev_slice :: "'a squeezed \<Rightarrow> exn + 'a squeezed" where
  "rev_slice (Arr0 x) = Inl IndexError"
| "rev_slice (Arr1 xs) = Inr (Arr1 (rev xs))"

text \<open>\<^verbatim>\<open>a[i]\<close> for a non-negative \<open>i\<close>.\<close>

fun getitem :: "'a squeezed \<Rightarrow> nat \<Rightarrow> exn + 'a" where
  "getitem (Arr0 x) i = Inl IndexError"
| "getitem (Arr1 xs) i = (if i < length xs then Inr (xs ! i) else Inl IndexError)"

text \<open>Indexing a Python list with a non-negative index.\<close>

definition list_getitem :: "'a list \<Rightarrow> nat \<Rightarrow> exn + 'a" where
  "list_getitem xs i = (if i < length xs then Inr (xs ! i) else Inl IndexError)"

text \<open>\<^verbatim>\<open>np.sort\<close> sorts ascending. \<^verbatim>\<open>np.argsort\<close> returns a permutation of the
  indices that sorts the vector ascending. The source calls it with its default kind,
  which numpy documents as not stable: the order among equal values is left open and
  differs between numpy versions and processors. The definition below has to pick one
  such permutation and keeps equal values in ascending index order; this choice is not
  a fact about the code: the proofs below use only that the result is a permutation
  of the indices that sorts the vector (\<open>set_np_argsort\<close>, \<open>map_nth_np_argsort\<close>),
  and every vector evaluated below has pairwise distinct scores, for which that
  permutation is unique.\<close>

definition np_sort :: "real list \<Rightarrow> real list" where
  "np_sort ps = sort ps"

definition np_argsort :: "real list \<Rightarrow> nat list" where
  "np_argsort ps = sort_key (\<lambda>i. ps ! i) [0..<length ps]"

text \<open>\<^verbatim>\<open>s.split(' ', 1)\<close>: split at the first space character, if there is one.\<close>

definition split_space1 :: "string \<Rightarrow> string list" where
  "split_space1 s =
     (if CHR '' '' \<in> set s
      then [takeWhile (\<lambda>c. c \<noteq> CHR '' '') s, tl (dropWhile (\<lambda>c. c \<noteq> CHR '' '') s)]
      else [s])"

subsection \<open>Postprocess\<close>

text \<open>The dictionary \<^verbatim>\<open>{"type": .., "classification": {"tag": {"value": ..,
  "confidence": ..}}}\<close>, its fixed keys as fields.\<close>

record dobj =
  obj_type :: string
  tag_value :: string
  tag_confidence :: real

text \<open>\<^verbatim>\<open>obj.split(' ', 1)[1]\<close>\<close>

definition obj_name_of :: "string \<Rightarrow> exn + string" where
  "obj_name_of obj = list_getitem (split_space1 obj) 1"

text \<open>One iteration of \<^verbatim>\<open>for i in range(3)\<close>.\<close>

definition detect :: "string list \<Rightarrow> real squeezed \<Rightarrow> nat squeezed \<Rightarrow> nat \<Rightarrow> exn + dobj" where
  "detect labelList sorted_prob sorted_indices i =
     (case getitem sorted_prob i of Inl e \<Rightarrow> Inl e | Inr p \<Rightarrow>
      let confidence = p / 100 in
      case getitem sorted_indices i of Inl e \<Rightarrow> Inl e | Inr idx \<Rightarrow>
      case list_getitem labelList idx of Inl e \<Rightarrow> Inl e | Inr obj \<Rightarrow>
      case obj_name_of obj of Inl e \<Rightarrow> Inl e | Inr obj_name \<Rightarrow>
      Inr \<lparr>obj_type = ''classification'', tag_value = obj_name, tag_confidence = confidence\<rparr>)"

text \<open>The loop, over the remaining values of \<open>i\<close>, appending to \<open>detectedObjects\<close>.\<close>

fun detect_loop ::
  "string list \<Rightarrow> real squeezed \<Rightarrow> nat squeezed \<Rightarrow> nat list \<Rightarrow> dobj list \<Rightarrow> exn + dobj list" where
  "detect_loop labelList sp si [] detectedObjects = Inr detectedObjects"
| "detect_loop labelList sp si (i # is) detectedObjects =
     (case detect labelList sp si i of
        Inl e \<Rightarrow> Inl e
      | Inr d \<Rightarrow> detect_loop labelList sp si is (detectedObjects @ [d]))"

definition Postprocess_body :: "string list \<Rightarrow> real list \<Rightarrow> exn + dobj list" where
  "Postprocess_body labelList probabilities =
     (case rev_slice (squeeze (np_sort probabilities)) of Inl e \<Rightarrow> Inl e | Inr sorted_prob \<Rightarrow>
      case rev_slice (squeeze (np_argsort probabilities)) of Inl e \<Rightarrow> Inl e | Inr sorted_indices \<Rightarrow>
      detect_loop labelList sorted_prob sorted_indices [0..<3] [])"

definition Postprocess :: "string list \<Rightarrow> real list \<Rightarrow> exn list \<times> dobj list option" where
  "Postprocess labelList probabilities = swallow (Postprocess_body labelList probabilities)"

subsection \<open>Arrays of any rank, and the primitives used by Preprocess\<close>

text \<open>A numpy array is its shape and the value at each index vector. Only the values
  at indices inside the shape are meaningful.\<close>

record 'a ndarray =
  shape :: "nat list"
  item :: "nat list \<Rightarrow> 'a"

definition in_bounds :: "nat list \<Rightarrow> nat list \<Rightarrow> bool" where
  "in_bounds sh idx = list_all2 (\<lambda>i n. i < n) idx sh"

text \<open>\<^verbatim>\<open>cv2.cvtColor(cvImage, cv2.COLOR_BGR2RGB)\<close> on 8-bit samples. On a non-empty
  image with 3 or 4 channels (height, width, channel) the result has 3 channels, the
  first three reversed. An empty image is rejected with \<^verbatim>\<open>cv2.error\<close>. What OpenCV
  does with any other array (two-dimensional, one or two channels) depends on its
  version; the definition lets the call raise there as well, which is a choice of the
  model and not a fact about the code: no property below is stated for such an array.\<close>

definition cvtColor_BGR2RGB :: "8 word ndarray \<Rightarrow> exn + 8 word ndarray" where
  "cvtColor_BGR2RGB src =
     (case shape src of
        [h, w, c] \<Rightarrow>
          if 0 < h \<and> 0 < w \<and> (c = 3 \<or> c = 4)
          then Inr \<lparr>shape = [h, w, 3], item = (\<lambda>idx. item src [idx ! 0, idx ! 1, 2 - idx ! 2])\<rparr>
          else Inl Cv2Error
      | _ \<Rightarrow> Inl Cv2Error)"

text \<open>\<^verbatim>\<open>np.array(imageBlob, dtype='float32')\<close>\<close>

definition astype_float32 :: "8 word ndarray \<Rightarrow> real ndarray" where
  "astype_float32 a = \<lparr>shape = shape a, item = (\<lambda>idx. real (unat (item a idx)))\<rparr>"

text \<open>\<^verbatim>\<open>imageBlob /= 255.\<close>\<close>

definition idiv :: "real ndarray \<Rightarrow> real \<Rightarrow> real ndarray" where
  "idiv a d = \<lparr>shape = shape a, item = (\<lambda>idx. item a idx / d)\<rparr>"

text \<open>\<^verbatim>\<open>np.transpose(imageBlob, [2, 0, 1])\<close>: axis \<open>k\<close> of the result is axis
  \<open>[2, 0, 1] ! k\<close> of the argument; numpy raises \<^verbatim>\<open>ValueError\<close> when the number of
  axes does not match.\<close>

definition transpose_201 :: "'a ndarray \<Rightarrow> exn + 'a ndarray" where
  "transpose_201 a =
     (case shape a of
        [n0, n1, n2] \<Rightarrow> Inr \<lparr>shape = [n2, n0, n1], item = (\<lambda>idx. item a [idx ! 1, idx ! 2, idx ! 0])\<rparr>
      | _ \<Rightarrow> Inl ValueError)"

text \<open>\<^verbatim>\<open>np.expand_dims(imageBlob, 0)\<close>\<close>

definition expand_dims0 :: "'a ndarray \<Rightarrow> 'a ndarray" where
  "expand_dims0 a = \<lparr>shape = 1 # shape a, item = (\<lambda>idx. item a (tl idx))\<rparr>"

subsection \<open>Preprocess\<close>

definition Preprocess_body :: "8 word ndarray \<Rightarrow> exn + real ndarray" where
  "Preprocess_body cvImage =
     (case cvtColor_BGR2RGB cvImage of Inl e \<Rightarrow> Inl e | Inr rgb \<Rightarrow>
      case transpose_201 (idiv (astype_float32 rgb) 255) of Inl e \<Rightarrow> Inl e | Inr chw \<Rightarrow>
      Inr (expand_dims0 chw))"

definition Preprocess :: "8 word ndarray \<Rightarrow> exn list \<times> real ndarray option" where
  "Preprocess cvImage = swallow (Preprocess_body cvImage)"

subsection \<open>Score\<close>

text \<open>The loaded model is opaque: an inference session maps the input tensor to the
  vector of scores of its single output, or raises. \<^verbatim>\<open>Score\<close> passes on whatever
  \<^verbatim>\<open>Preprocess\<close> returned; when that is \<^verbatim>\<open>None\<close>, onnxruntime rejects the feed by
  raising. The lock taken around the first two calls has no effect on a single
  caller and is not modelled.\<close>

type_synonym session = "real ndarray \<Rightarrow> exn + real list"

definition session_run :: "session \<Rightarrow> real ndarray option \<Rightarrow> exn + real list" where
  "session_run onnxSession imageBlob =
     (case imageBlob of None \<Rightarrow> Inl OrtError | Some blob \<Rightarrow> onnxSession blob)"

definition Score :: "string list \<Rightarrow> session \<Rightarrow> 8 word ndarray \<Rightarrow> exn list \<times> dobj list option" where
  "Score labelList onnxSession cvImage =
     (let (log1, imageBlob) = Preprocess cvImage in
      case session_run onnxSession imageBlob of
        Inl e \<Rightarrow> (log1 @ [e], None)
      | Inr probabilities \<Rightarrow>
          (let (log2, res) = Postprocess labelList probabilities in (log1 @ log2, res)))"

subsection \<open>The specification's view of the output\<close>

text \<open>The specification describes a result as label, confidence and rank; the rank of
  a returned dictionary is its position in the returned list.\<close>

definition ranked :: "dobj list \<Rightarrow> (string \<times> real \<times> nat) list" where
  "ranked ds = map (\<lambda>(i, d). (tag_value d, tag_confidence d, i)) (enumerate 0 ds)"

text \<open>The whitespace-delimited tokens of a line, as the specification counts them:
  the maximal runs of characters other than the ASCII whitespace characters (space,
  tab, line feed, vertical tab, form feed, carriage return).\<close>

definition is_space :: "char \<Rightarrow> bool" where
  "is_space c = (c \<in> {CHR '' '', CHR 0x09, CHR 0x0A, CHR 0x0B, CHR 0x0C, CHR 0x0D})"

fun ws_tokens_aux :: "string \<Rightarrow> string \<Rightarrow> string list" where
  "ws_tokens_aux cur [] = (if cur = [] then [] else [cur])"
| "ws_tokens_aux cur (c # cs) =
     (if is_space c then (if cur = [] then ws_tokens_aux [] cs else cur # ws_tokens_aux [] cs)
      else ws_tokens_aux (cur @ [c]) cs)"

definition ws_tokens :: "string \<Rightarrow> string list" where
  "ws_tokens s = ws_tokens_aux [] s"

subsection \<open>Sample images\<close>

text \<open>An image of the given height and width whose every pixel is (b, g, r); with
  height and width 0 it is the empty image.\<close>

definition solid_bgr :: "nat \<Rightarrow> nat \<Rightarrow> 8 word \<Rightarrow> 8 word \<Rightarrow> 8 word \<Rightarrow> 8 word ndarray" where
  "solid_bgr h w b g r =
     \<lparr>shape = [h, w, 3],
      item = (\<lambda>idx. if idx ! 2 = 0 then b else if idx ! 2 = 1 then g else r)\<rparr>"


section \<open>Auxiliary facts\<close>

lemma upt3: "[0..<3] = [0, 1, 2]"
  by (simp add: upt_rec)

lemma squeeze_Arr1: "length xs \<noteq> 1 \<Longrightarrow> squeeze xs = Arr1 xs"
  by (cases xs rule: squeeze.cases) simp_all

lemma squeeze_Arr0: "length xs = 1 \<Longrightarrow> \<exists>x. squeeze xs = Arr0 x"
  by (cases xs rule: squeeze.cases) simp_all

lemma map_insort_key: "map f (insort_key f x xs) = insort (f x) (map f xs)"
  by (induction xs) simp_all

lemma map_sort_key: "map f (sort_key f xs) = sort (map f xs)"
  by (induction xs) (simp_all add: map_insort_key)

lemma length_np_argsort: "length (np_argsort ps) = length ps"
  by (simp add: np_argsort_def)

lemma length_np_sort: "length (np_sort ps) = length ps"
  by (simp add: np_sort_def)

lemma set_np_argsort: "set (np_argsort ps) = {0..<length ps}"
  by (simp add: np_argsort_def)

lemma map_nth_np_argsort: "map (\<lambda>i. ps ! i) (np_argsort ps) = np_sort ps"
  by (simp add: np_argsort_def np_sort_def map_sort_key map_nth)

lemma np_sort_nth_argsort:
  assumes "k < length ps"
  shows "rev (np_sort ps) ! k = ps ! (rev (np_argsort ps) ! k)"
proof -
  have "rev (np_sort ps) = rev (map (\<lambda>i. ps ! i) (np_argsort ps))"
    by (simp only: map_nth_np_argsort)
  also have "\<dots> = map (\<lambda>i. ps ! i) (rev (np_argsort ps))"
    by (rule rev_map)
  finally show ?thesis
    using assms by (simp add: length_np_argsort)
qed

lemma rev_np_argsort_less:
  assumes "k < length ps"
  shows "rev (np_argsort ps) ! k < length ps"
proof -
  have "rev (np_argsort ps) ! k \<in> set (rev (np_argsort ps))"
    using assms by (intro nth_mem) (simp add: length_np_argsort)
  then show ?thesis
    by (simp add: set_np_argsort)
qed

lemma sorted_rev_np_sort: "sorted (rev (rev (np_sort ps)))"
  by (simp add: np_sort_def)

text \<open>The loop returns the accumulator extended by one dictionary per index, or the
  first exception.\<close>

lemma detect_loop_Inr:
  "detect_loop L sp si ks acc = Inr r \<longleftrightarrow>
   (\<exists>ds. r = acc @ ds \<and> list_all2 (\<lambda>k d. detect L sp si k = Inr d) ks ds)"
proof (induction ks arbitrary: acc)
  case Nil
  then show ?case by auto
next
  case (Cons k ks)
  show ?case
  proof (cases "detect L sp si k")
    case (Inl e)
    then show ?thesis by (auto simp: list_all2_Cons1)
  next
    case (Inr d)
    then show ?thesis
      by (auto simp: Cons.IH list_all2_Cons1)
  qed
qed

lemma detect_loop_Inl:
  "detect_loop L sp si ks acc = Inl e \<Longrightarrow> \<exists>k \<in> set ks. detect L sp si k = Inl e"
  by (induction ks arbitrary: acc) (auto split: sum.splits)

lemma detect_loop_fail:
  "k \<in> set ks \<Longrightarrow> detect L sp si k = Inl e \<Longrightarrow> \<exists>e'. detect_loop L sp si ks acc = Inl e'"
  by (induction ks arbitrary: acc) (auto split: sum.splits)

lemma getitem_Inl: "getitem a i = Inl e \<Longrightarrow> e = IndexError"
  by (cases a) (auto split: if_splits)

lemma list_getitem_Inl: "list_getitem xs i = Inl e \<Longrightarrow> e = IndexError"
  by (auto simp: list_getitem_def split: if_splits)

lemma rev_slice_Inl: "rev_slice a = Inl e \<Longrightarrow> e = IndexError"
  by (cases a) auto

lemma detect_Inl: "detect L sp si k = Inl e \<Longrightarrow> e = IndexError"
  by (auto simp: detect_def obj_name_of_def Let_def split: sum.splits
           dest: getitem_Inl list_getitem_Inl)

lemma Postprocess_body_Inl: "Postprocess_body L ps = Inl e \<Longrightarrow> e = IndexError"
  by (auto simp: Postprocess_body_def split: sum.splits
           dest: rev_slice_Inl detect_loop_Inl detect_Inl)

lemma Postprocess_body_long:
  assumes "length ps \<noteq> 1"
  shows "Postprocess_body L ps =
         detect_loop L (Arr1 (rev (np_sort ps))) (Arr1 (rev (np_argsort ps))) [0, 1, 2] []"
  using assms
  by (simp add: Postprocess_body_def squeeze_Arr1 length_np_sort length_np_argsort upt3)

lemma Postprocess_body_short:
  assumes "length ps < 3"
  shows "Postprocess_body L ps = Inl IndexError"
proof (cases "length ps = 1")
  case True
  then obtain x where "squeeze (np_sort ps) = Arr0 x"
    using squeeze_Arr0 [of "np_sort ps"] by (auto simp: length_np_sort)
  then show ?thesis
    by (simp add: Postprocess_body_def)
next
  case False
  have "detect L (Arr1 (rev (np_sort ps))) (Arr1 (rev (np_argsort ps))) 2 = Inl IndexError"
    using assms by (simp add: detect_def length_np_sort)
  then obtain e where "Postprocess_body L ps = Inl e"
    using detect_loop_fail [of 2 "[0, 1, 2]"] Postprocess_body_long [OF False, of L]
    by fastforce
  then show ?thesis
    using Postprocess_body_Inl by blast
qed

lemma split_space1_nth1:
  "obj_name_of obj =
     (if CHR '' '' \<in> set obj then Inr (tl (dropWhile (\<lambda>c. c \<noteq> CHR '' '') obj))
      else Inl IndexError)"
  by (simp add: obj_name_of_def split_space1_def list_getitem_def)

lemma detect_ok:
  assumes "k < length ps" "rev (np_argsort ps) ! k < length L"
  shows "detect L (Arr1 (rev (np_sort ps))) (Arr1 (rev (np_argsort ps))) k =
         (case obj_name_of (L ! (rev (np_argsort ps) ! k)) of
            Inl e \<Rightarrow> Inl e
          | Inr nm \<Rightarrow> Inr \<lparr>obj_type = ''classification'', tag_value = nm,
                          tag_confidence = rev (np_sort ps) ! k / 100\<rparr>)"
  using assms
  by (simp add: detect_def length_np_sort length_np_argsort list_getitem_def)

lemma detect_no_label:
  assumes "k < length ps" "length L \<le> rev (np_argsort ps) ! k"
  shows "detect L (Arr1 (rev (np_sort ps))) (Arr1 (rev (np_argsort ps))) k = Inl IndexError"
  using assms
  by (simp add: detect_def length_np_sort length_np_argsort list_getitem_def)

lemma detect_Inr:
  assumes "detect L (Arr1 sp) (Arr1 si) k = Inr d"
  shows "k < length sp \<and> k < length si \<and> si ! k < length L \<and>
         obj_name_of (L ! (si ! k)) = Inr (tag_value d) \<and>
         tag_confidence d = sp ! k / 100 \<and> obj_type d = ''classification''"
  using assms
  by (auto simp: detect_def list_getitem_def Let_def split: if_splits sum.splits)

lemma list_all2_three:
  "list_all2 P [a, b, c] ds \<longleftrightarrow> (\<exists>x y z. ds = [x, y, z] \<and> P a x \<and> P b y \<and> P c z)"
  by (auto simp: list_all2_Cons1)

lemma less_3_cases: "k < (3::nat) \<longleftrightarrow> k = 0 \<or> k = 1 \<or> k = 2"
  by auto

lemma Postprocess_body_Inr:
  assumes "Postprocess_body L ps = Inr r"
  shows "3 \<le> length ps \<and> length r = 3 \<and>
         (\<forall>k<3. detect L (Arr1 (rev (np_sort ps))) (Arr1 (rev (np_argsort ps))) k = Inr (r ! k))"
proof -
  have len: "3 \<le> length ps"
    using assms Postprocess_body_short [of ps L] by (cases "length ps < 3") auto
  then have "detect_loop L (Arr1 (rev (np_sort ps))) (Arr1 (rev (np_argsort ps))) [0, 1, 2] [] = Inr r"
    using assms Postprocess_body_long [of ps L] by simp
  then obtain x y z where r: "r = [x, y, z]"
    and "detect L (Arr1 (rev (np_sort ps))) (Arr1 (rev (np_argsort ps))) 0 = Inr x"
    and "detect L (Arr1 (rev (np_sort ps))) (Arr1 (rev (np_argsort ps))) 1 = Inr y"
    and "detect L (Arr1 (rev (np_sort ps))) (Arr1 (rev (np_argsort ps))) 2 = Inr z"
    unfolding detect_loop_Inr list_all2_three by auto
  then show ?thesis
    using len by (simp add: less_3_cases)
qed

lemma Postprocess_body_ok:
  assumes "3 \<le> length ps"
    and "\<forall>k<3. detect L (Arr1 (rev (np_sort ps))) (Arr1 (rev (np_argsort ps))) k = Inr (f k)"
  shows "Postprocess_body L ps = Inr [f 0, f 1, f 2]"
proof -
  have "length ps \<noteq> 1" using assms(1) by simp
  then show ?thesis
    using assms(2) by (simp add: Postprocess_body_long)
qed

lemma swallow_Some: "swallow r = (lg, Some v) \<longleftrightarrow> r = Inr v \<and> lg = []"
  by (auto simp: swallow_def split: sum.splits)

lemma squeezed_slices:
  assumes "2 \<le> length ps"
  shows "rev_slice (squeeze (np_sort ps)) = Inr (Arr1 (rev (np_sort ps)))"
    and "rev_slice (squeeze (np_argsort ps)) = Inr (Arr1 (rev (np_argsort ps)))"
  using assms by (simp_all add: squeeze_Arr1 length_np_sort length_np_argsort)

lemma Postprocess_ok:
  assumes "3 \<le> length ps"
    and "\<forall>k<3. rev (np_argsort ps) ! k < length L \<and>
               CHR '' '' \<in> set (L ! (rev (np_argsort ps) ! k))"
  shows "\<exists>r. Postprocess L ps = ([], Some r) \<and> length r = 3 \<and>
             (\<forall>k<3. tag_confidence (r ! k) = rev (np_sort ps) ! k / 100)"
proof -
  define f where "f k = \<lparr>obj_type = ''classification'',
      tag_value = tl (dropWhile (\<lambda>c. c \<noteq> CHR '' '') (L ! (rev (np_argsort ps) ! k))),
      tag_confidence = rev (np_sort ps) ! k / 100\<rparr>" for k
  have "\<forall>k<3. detect L (Arr1 (rev (np_sort ps))) (Arr1 (rev (np_argsort ps))) k = Inr (f k)"
    using assms by (simp add: detect_ok split_space1_nth1 f_def)
  then have "Postprocess_body L ps = Inr [f 0, f 1, f 2]"
    using assms(1) by (intro Postprocess_body_ok) simp_all
  then have "Postprocess L ps = ([], Some [f 0, f 1, f 2])"
    by (simp add: Postprocess_def swallow_def)
  moreover have "\<forall>k<3. tag_confidence ([f 0, f 1, f 2] ! k) = rev (np_sort ps) ! k / 100"
    by (simp add: less_3_cases f_def)
  ultimately show ?thesis by simp
qed

lemma three_descending:
  assumes "length r = 3" "3 \<le> length ps"
    and "\<forall>k<3. tag_confidence (r ! k) = rev (np_sort ps) ! k / 100"
  shows "sorted (rev (map tag_confidence r))"
proof -
  obtain a b c where r: "r = [a, b, c]"
    using assms(1) by (auto simp: length_Suc_conv numeral_3_eq_3)
  have len: "length (rev (np_sort ps)) = length ps"
    by (simp add: length_np_sort)
  have "rev (np_sort ps) ! 1 \<le> rev (np_sort ps) ! 0"
    using sorted_rev_nth_mono [OF sorted_rev_np_sort, of 0 1 ps] assms(2) len by simp
  moreover have "rev (np_sort ps) ! 2 \<le> rev (np_sort ps) ! 1"
    using sorted_rev_nth_mono [OF sorted_rev_np_sort, of 1 2 ps] assms(2) len by simp
  moreover have "tag_confidence a = rev (np_sort ps) ! 0 / 100"
    "tag_confidence b = rev (np_sort ps) ! 1 / 100" "tag_confidence c = rev (np_sort ps) ! 2 / 100"
    using assms(3) r by (auto simp: less_3_cases)
  ultimately show ?thesis
    using r by simp
qed

lemma cvtColor_ok:
  assumes "shape src = [h, w, c]" "0 < h" "0 < w" "c = 3 \<or> c = 4"
  shows "cvtColor_BGR2RGB src =
         Inr \<lparr>shape = [h, w, 3], item = (\<lambda>idx. item src [idx ! 0, idx ! 1, 2 - idx ! 2])\<rparr>"
  using assms by (auto simp: cvtColor_BGR2RGB_def)

lemma cvtColor_fail:
  assumes "\<not> (\<exists>h w c. shape src = [h, w, c] \<and> 0 < h \<and> 0 < w \<and> (c = 3 \<or> c = 4))"
  shows "cvtColor_BGR2RGB src = Inl Cv2Error"
  using assms by (auto simp: cvtColor_BGR2RGB_def split: list.splits)

lemma Preprocess_body_ok:
  assumes "shape cvImage = [h, w, c]" "0 < h" "0 < w" "c = 3 \<or> c = 4"
  shows "\<exists>rgb chw.
           cvtColor_BGR2RGB cvImage = Inr rgb \<and> shape rgb = [h, w, 3] \<and>
           transpose_201 (idiv (astype_float32 rgb) 255) = Inr chw \<and> shape chw = [3, h, w] \<and>
           Preprocess_body cvImage = Inr (expand_dims0 chw) \<and>
           shape (expand_dims0 chw) = [1, 3, h, w] \<and>
           (\<forall>k y x. item (expand_dims0 chw) [0, k, y, x] =
                     real (unat (item cvImage [y, x, 2 - k])) / 255)"
  by (simp add: Preprocess_body_def cvtColor_ok [OF assms] transpose_201_def idiv_def
        astype_float32_def expand_dims0_def)

lemma Preprocess_body_fail:
  assumes "\<not> (\<exists>h w c. shape cvImage = [h, w, c] \<and> 0 < h \<and> 0 < w \<and> (c = 3 \<or> c = 4))"
  shows "Preprocess_body cvImage = Inl Cv2Error"
  by (simp add: Preprocess_body_def cvtColor_fail [OF assms])

lemma Preprocess_body_range:
  assumes "Preprocess_body cvImage = Inr t"
  shows "0 \<le> item t idx \<and> item t idx \<le> 1"
proof -
  have u: "(unsigned b :: real) \<le> 255" for b :: "8 word"
  proof -
    have "unat b < 2 ^ 8"
      using unsigned_less [of b, where ?'a = nat] by simp
    then have "unat b \<le> 255" by simp
    then have "real (unat b) \<le> real 255" by (simp only: of_nat_le_iff)
    then show ?thesis by simp
  qed
  have u0: "(0::real) \<le> unsigned b" for b :: "8 word"
    using of_nat_0_le_iff [of "unat b", where ?'a = real] by simp
  show ?thesis
    using assms u u0
    by (auto simp: Preprocess_body_def cvtColor_BGR2RGB_def transpose_201_def idiv_def
        astype_float32_def expand_dims0_def split: list.splits if_splits)
qed

lemma Score_unfold:
  "Score L sess cvImage =
     (case Preprocess_body cvImage of
        Inl e \<Rightarrow> ([e, OrtError], None)
      | Inr blob \<Rightarrow>
          (case sess blob of
             Inl e \<Rightarrow> ([e], None)
           | Inr ps \<Rightarrow> Postprocess L ps))"
  by (simp add: Score_def Preprocess_def swallow_def session_run_def split: sum.splits)

lemma shape_solid_bgr: "shape (solid_bgr h w b g r) = [h, w, 3]"
  by (simp add: solid_bgr_def)

lemma Preprocess_body_solid:
  assumes "0 < h" "0 < w"
  shows "\<exists>blob. Preprocess_body (solid_bgr h w b g r) = Inr blob \<and> shape blob = [1, 3, h, w]"
  using Preprocess_body_ok [OF shape_solid_bgr assms, of b g r] by auto

lemma Preprocess_body_empty: "Preprocess_body (solid_bgr 0 0 b g r) = Inl Cv2Error"
  by (rule Preprocess_body_fail) (simp add: solid_bgr_def)

lemma Postprocess_detect_fail:
  assumes "3 \<le> length ps" and "k < 3"
    and "detect L (Arr1 (rev (np_sort ps))) (Arr1 (rev (np_argsort ps))) k = Inl e"
  shows "Postprocess L ps = ([IndexError], None)"
proof -
  have "k \<in> set [0, 1, 2]" using assms(2) by auto
  moreover have "length ps \<noteq> 1" using assms(1) by simp
  ultimately obtain e' where "Postprocess_body L ps = Inl e'"
    using assms(3) detect_loop_fail [of k "[0, 1, 2]" L _ _ e "[]"]
    by (auto simp: Postprocess_body_long)
  then have "Postprocess_body L ps = Inl IndexError"
    using Postprocess_body_Inl by blast
  then show ?thesis
    by (simp add: Postprocess_def swallow_def)
qed

section \<open>Properties of the wrapper\<close>

text \<open>
  C1. On the probability vector [0.1, 92.0, 0.05, 4.0, 3.0] and the label lines
  "0 cat", "1 dog", "2 bird", "3 fish", "4 mouse", Postprocess logs nothing and
  returns exactly three results, in this order: dog with confidence 0.92 at rank 0,
  fish with 0.04 at rank 1, mouse with 0.03 at rank 2.
\<close>

theorem Postprocess_known_vector:
  "fst (Postprocess [''0 cat'', ''1 dog'', ''2 bird'', ''3 fish'', ''4 mouse'']
          [0.1, 92.0, 0.05, 4.0, 3.0]) = [] \<and>
   map_option ranked
     (snd (Postprocess [''0 cat'', ''1 dog'', ''2 bird'', ''3 fish'', ''4 mouse'']
             [0.1, 92.0, 0.05, 4.0, 3.0])) =
   Some [(''dog'', 0.92, 0), (''fish'', 0.04, 1), (''mouse'', 0.03, 2)]"
  by (simp add: Postprocess_def Postprocess_body_def swallow_def np_sort_def np_argsort_def
        upt_rec detect_def list_getitem_def obj_name_of_def split_space1_def ranked_def
        enumerate_eq_zip)

text \<open>
  C3, as the specification states it, fails: nothing in Score bounds a confidence. With
  a session whose scores for a 224 x 224 x 3 image are [250, 40, -5], the returned
  confidences are 2.5, 0.4 and -0.05.
\<close>

theorem Score_confidence_counterexample:
  "shape (solid_bgr 224 224 10 20 30) = [224, 224, 3] \<and>
   Score [''0 a'', ''1 b'', ''2 c''] (\<lambda>blob. Inr [250, 40, - 5]) (solid_bgr 224 224 10 20 30) =
     ([], Some [\<lparr>obj_type = ''classification'', tag_value = ''a'', tag_confidence = 5 / 2\<rparr>,
        \<lparr>obj_type = ''classification'', tag_value = ''b'', tag_confidence = 2 / 5\<rparr>,
        \<lparr>obj_type = ''classification'', tag_value = ''c'', tag_confidence = - (1 / 20)\<rparr>]) \<and>
   \<not> (5 / 2 \<le> (1::real)) \<and> \<not> (0 \<le> - (1 / 20 :: real))"
proof -
  obtain blob where b: "Preprocess_body (solid_bgr 224 224 10 20 30) = Inr blob"
    using Preprocess_body_solid [of 224 224 10 20 30] by auto
  have "Postprocess [''0 a'', ''1 b'', ''2 c''] [250, 40, - 5] =
     ([], Some [\<lparr>obj_type = ''classification'', tag_value = ''a'', tag_confidence = 5 / 2\<rparr>,
        \<lparr>obj_type = ''classification'', tag_value = ''b'', tag_confidence = 2 / 5\<rparr>,
        \<lparr>obj_type = ''classification'', tag_value = ''c'', tag_confidence = - (1 / 20)\<rparr>])"
    by (simp add: Postprocess_def Postprocess_body_def swallow_def np_sort_def np_argsort_def
        upt_rec detect_def list_getitem_def obj_name_of_def split_space1_def)
  then show ?thesis
    by (simp add: Score_unfold b shape_solid_bgr)
qed

text \<open>
  C3, amended. For a 224 x 224 x 3 image on which the session returns at least three
  scores, and when the three selected indices have label lines that contain a space,
  Score logs nothing and returns exactly three results, ordered by non-increasing
  confidence; the confidence at rank \<open>k\<close> is the \<open>k\<close>-th largest score divided by 100, so
  it lies in [0, 1] exactly when that score lies in [0, 100].
\<close>

theorem Score_three_results:
  assumes "shape cvImage = [224, 224, 3]"
    and "Preprocess_body cvImage = Inr blob"
    and "sess blob = Inr ps"
    and "3 \<le> length ps"
    and "\<forall>k<3. rev (np_argsort ps) ! k < length L \<and>
               CHR '' '' \<in> set (L ! (rev (np_argsort ps) ! k))"
  shows "\<exists>r. Score L sess cvImage = ([], Some r) \<and> length r = 3 \<and>
             (\<forall>k<3. tag_confidence (r ! k) = rev (np_sort ps) ! k / 100) \<and>
             sorted (rev (map tag_confidence r)) \<and>
             (\<forall>k<3. (0 \<le> tag_confidence (r ! k) \<and> tag_confidence (r ! k) \<le> 1) \<longleftrightarrow>
                    (0 \<le> rev (np_sort ps) ! k \<and> rev (np_sort ps) ! k \<le> 100))"
proof -
  from Postprocess_ok [OF assms(4,5)] obtain r where
    r: "Postprocess L ps = ([], Some r)" "length r = 3"
      "\<forall>k<3. tag_confidence (r ! k) = rev (np_sort ps) ! k / 100"
    by blast
  have "Score L sess cvImage = ([], Some r)"
    by (simp add: Score_unfold assms(2,3) r(1))
  moreover have "sorted (rev (map tag_confidence r))"
    using r(2) assms(4) r(3) by (rule three_descending)
  moreover have "\<forall>k<3. (0 \<le> tag_confidence (r ! k) \<and> tag_confidence (r ! k) \<le> 1) \<longleftrightarrow>
                    (0 \<le> rev (np_sort ps) ! k \<and> rev (np_sort ps) ! k \<le> 100)"
  proof (intro allI impI)
    fix k :: nat
    assume "k < 3"
    then have "tag_confidence (r ! k) = rev (np_sort ps) ! k / 100"
      using r(3) by blast
    then show "(0 \<le> tag_confidence (r ! k) \<and> tag_confidence (r ! k) \<le> 1) \<longleftrightarrow>
               (0 \<le> rev (np_sort ps) ! k \<and> rev (np_sort ps) ! k \<le> 100)"
      by (simp only: zero_le_divide_iff divide_le_eq) simp
  qed
  ultimately show ?thesis
    using r(2,3) by blast
qed

theorem Score_three_results_witness:
  "shape (solid_bgr 224 224 10 20 30) = [224, 224, 3] \<and>
   3 \<le> length [2, 17.8, 11.2, 10.4 :: real] \<and>
   (\<exists>r. Score [''0 a'', ''1 llama'', ''2 gazelle'', ''3 wallaby, brush kangaroo'']
          (\<lambda>blob. Inr [2, 17.8, 11.2, 10.4]) (solid_bgr 224 224 10 20 30) = ([], Some r) \<and>
        length r = 3 \<and> sorted (rev (map tag_confidence r)) \<and>
        tag_confidence (r ! 0) = 0.178)"
proof -
  let ?L = "[''0 a'', ''1 llama'', ''2 gazelle'', ''3 wallaby, brush kangaroo'']"
  let ?ps = "[2, 17.8, 11.2, 10.4 :: real]"
  have h1: "shape (solid_bgr 224 224 10 20 30) = [224, 224, 3]"
    by (rule shape_solid_bgr)
  obtain blob where h2: "Preprocess_body (solid_bgr 224 224 10 20 30) = Inr blob"
    using Preprocess_body_solid [of 224 224 10 20 30] by auto
  have h3: "(\<lambda>blob. Inr ?ps :: exn + real list) blob = Inr ?ps"
    by simp
  have h4: "3 \<le> length ?ps" by simp
  have a: "rev (np_argsort ?ps) = [1, 2, 3, 0]"
    by (simp add: np_argsort_def upt_rec)
  have s: "rev (np_sort ?ps) = [17.8, 11.2, 10.4, 2]"
    by (simp add: np_sort_def)
  have h5: "\<forall>k<3. rev (np_argsort ?ps) ! k < length ?L \<and>
               CHR '' '' \<in> set (?L ! (rev (np_argsort ?ps) ! k))"
    unfolding a by (simp add: less_3_cases)
  from Score_three_results [OF h1 h2 h3 h4 h5] obtain r where
    r: "Score ?L (\<lambda>blob. Inr ?ps) (solid_bgr 224 224 10 20 30) = ([], Some r)" "length r = 3"
      "sorted (rev (map tag_confidence r))"
      "\<forall>k<3. tag_confidence (r ! k) = rev (np_sort ?ps) ! k / 100"
    by blast
  have "tag_confidence (r ! 0) = 0.178"
    using r(4) [rule_format, of 0] unfolding s by simp
  then show ?thesis
    using h1 h4 r(1,2,3) by blast
qed

text \<open>
  C4. For every 224 x 224 x 3 image, Preprocess succeeds through its steps in order:
  the colour conversion gives a 224 x 224 x 3 array with the channels reversed; the cast
  and the division by 255 are applied to it; the transposition gives shape (3, 224, 224);
  the added batch axis gives shape (1, 3, 224, 224). Element (0, k, y, x) of the result
  is sample (y, x, 2 - k) of the image divided by 255, and every value is in [0, 1].
\<close>

theorem Preprocess_steps:
  assumes "shape cvImage = [224, 224, 3]"
  shows "\<exists>rgb chw.
           cvtColor_BGR2RGB cvImage = Inr rgb \<and> shape rgb = [224, 224, 3] \<and>
           transpose_201 (idiv (astype_float32 rgb) 255) = Inr chw \<and> shape chw = [3, 224, 224] \<and>
           Preprocess cvImage = ([], Some (expand_dims0 chw)) \<and>
           shape (expand_dims0 chw) = [1, 3, 224, 224] \<and>
           (\<forall>k y x. k < 3 \<and> y < 224 \<and> x < 224 \<longrightarrow>
              item (expand_dims0 chw) [0, k, y, x] = real (unat (item cvImage [y, x, 2 - k])) / 255) \<and>
           (\<forall>idx. 0 \<le> item (expand_dims0 chw) idx \<and> item (expand_dims0 chw) idx \<le> 1)"
proof -
  from Preprocess_body_ok [OF assms] obtain rgb chw where
    s: "cvtColor_BGR2RGB cvImage = Inr rgb" "shape rgb = [224, 224, 3]"
      "transpose_201 (idiv (astype_float32 rgb) 255) = Inr chw" "shape chw = [3, 224, 224]"
      "shape (expand_dims0 chw) = [1, 3, 224, 224]"
    and body: "Preprocess_body cvImage = Inr (expand_dims0 chw)"
    and el: "\<forall>k y x. item (expand_dims0 chw) [0, k, y, x] =
                     real (unat (item cvImage [y, x, 2 - k])) / 255"
    by auto
  have "Preprocess cvImage = ([], Some (expand_dims0 chw))"
    by (simp add: Preprocess_def body swallow_def)
  moreover have "\<forall>idx. 0 \<le> item (expand_dims0 chw) idx \<and> item (expand_dims0 chw) idx \<le> 1"
    using Preprocess_body_range [OF body] by blast
  ultimately show ?thesis
    using s el by blast
qed

theorem Preprocess_steps_witness:
  "shape (solid_bgr 224 224 10 20 30) = [224, 224, 3] \<and>
   (\<exists>t. Preprocess (solid_bgr 224 224 10 20 30) = ([], Some t) \<and>
        shape t = [1, 3, 224, 224] \<and>
        item t [0, 0, 5, 7] = 30 / 255 \<and> item t [0, 1, 5, 7] = 20 / 255 \<and>
        item t [0, 2, 5, 7] = 10 / 255)"
proof -
  have h: "shape (solid_bgr 224 224 10 20 30) = [224, 224, 3]"
    by (rule shape_solid_bgr)
  from Preprocess_steps [OF h] obtain t where
    t: "Preprocess (solid_bgr 224 224 10 20 30) = ([], Some t)" "shape t = [1, 3, 224, 224]"
    and el: "\<forall>k y x. k < 3 \<and> y < 224 \<and> x < 224 \<longrightarrow>
               item t [0, k, y, x] = real (unat (item (solid_bgr 224 224 10 20 30) [y, x, 2 - k])) / 255"
    by blast
  have "item t [0, 0, 5, 7] = 30 / 255" "item t [0, 1, 5, 7] = 20 / 255" "item t [0, 2, 5, 7] = 10 / 255"
    using el [rule_format, of 0 5 7] el [rule_format, of 1 5 7] el [rule_format, of 2 5 7]
    by (simp_all add: solid_bgr_def)
  then show ?thesis
    using h t by blast
qed

text \<open>
  C5, as the specification states it, fails: the lookup splits at the space character
  only. The line "9<TAB>fox" has two whitespace-delimited tokens, yet the lookup raises
  IndexError; and on the line " 9 fox" the lookup returns "9 fox", the first token
  still in place.
\<close>

theorem obj_name_tokens_counterexample:
  "ws_tokens (''9'' @ [CHR 0x09] @ ''fox'') = [''9'', ''fox''] \<and>
   obj_name_of (''9'' @ [CHR 0x09] @ ''fox'') = Inl IndexError \<and>
   ws_tokens '' 9 fox'' = [''9'', ''fox''] \<and>
   obj_name_of '' 9 fox'' = Inr ''9 fox''"
  by (simp add: ws_tokens_def is_space_def split_space1_nth1)

text \<open>
  C5, amended. For every label line that contains a space character, the lookup
  returns exactly the portion of the line after the first space character, whatever
  follows it; a line with no space character makes the lookup raise IndexError. The
  line "9 n02119789 fox" resolves to "n02119789 fox".
\<close>

theorem obj_name_after_first_space:
  "(CHR '' '' \<notin> set pre \<longrightarrow> obj_name_of (pre @ CHR '' '' # post) = Inr post) \<and>
   (CHR '' '' \<notin> set obj \<longrightarrow> obj_name_of obj = Inl IndexError) \<and>
   obj_name_of ''9 n02119789 fox'' = Inr ''n02119789 fox''"
proof (intro conjI impI)
  assume "CHR '' '' \<notin> set pre"
  then have "dropWhile (\<lambda>c. c \<noteq> CHR '' '') (pre @ CHR '' '' # post) = CHR '' '' # post"
    by (subst dropWhile_append2) auto
  then show "obj_name_of (pre @ CHR '' '' # post) = Inr post"
    by (simp add: split_space1_nth1)
next
  assume "CHR '' '' \<notin> set obj"
  then show "obj_name_of obj = Inl IndexError"
    by (simp add: split_space1_nth1)
next
  show "obj_name_of ''9 n02119789 fox'' = Inr ''n02119789 fox''"
    by (simp add: split_space1_nth1)
qed

theorem obj_name_after_first_space_witness:
  "CHR '' '' \<notin> set ''n01440764'' \<and>
   obj_name_of (''n01440764'' @ CHR '' '' # ''tench, Tinca tinca'') = Inr ''tench, Tinca tinca'' \<and>
   CHR '' '' \<notin> set ''n01440764'' \<and> obj_name_of ''n01440764'' = Inl IndexError"
  using obj_name_after_first_space [of "''n01440764''" "''tench, Tinca tinca''" "''n01440764''"]
  by simp

text \<open>
  C6, as the specification states it, fails: when the session raises, when the colour
  conversion rejects an empty image, and when the label table is too short, Score
  returns \<^verbatim>\<open>None\<close> and no error value.
\<close>

theorem Score_returns_nothing_counterexample:
  "snd (Score [''0 a'', ''1 b'', ''2 c''] (\<lambda>blob. Inl OrtError) (solid_bgr 224 224 10 20 30)) = None \<and>
   snd (Score [''0 a'', ''1 b'', ''2 c''] (\<lambda>blob. Inr [3, 2, 1]) (solid_bgr 0 0 10 20 30)) = None \<and>
   snd (Score [''0 a''] (\<lambda>blob. Inr [3, 2, 1]) (solid_bgr 224 224 10 20 30)) = None"
proof -
  have p1: "Preprocess_body (solid_bgr 0 0 10 20 30) = Inl Cv2Error"
    by (rule Preprocess_body_empty)
  obtain blob where p2: "Preprocess_body (solid_bgr 224 224 10 20 30) = Inr blob"
    using Preprocess_body_solid [of 224 224 10 20 30] by auto
  have p3: "Postprocess [''0 a''] [3, 2, 1] = ([IndexError], None)"
    by (simp add: Postprocess_def swallow_def Postprocess_body_def np_sort_def np_argsort_def
        upt_rec detect_def list_getitem_def obj_name_of_def split_space1_def)
  show ?thesis
    by (simp add: Score_unfold p1 p2 p3)
qed

text \<open>
  C6, amended. Whenever a stage raises, Score returns \<^verbatim>\<open>None\<close>; the exception is
  caught and written to the log and does not reach the caller. A failure inside
  Preprocess is logged there, and the session then rejects the missing tensor, which
  is logged as well; a failure of the session or inside Postprocess leaves one entry.
\<close>

theorem Score_swallows_failures:
  "(Preprocess_body cvImage = Inl e \<longrightarrow> Score L sess cvImage = ([e, OrtError], None)) \<and>
   (Preprocess_body cvImage = Inr blob \<and> sess blob = Inl e \<longrightarrow>
      Score L sess cvImage = ([e], None)) \<and>
   (Preprocess_body cvImage = Inr blob \<and> sess blob = Inr ps \<and> Postprocess_body L ps = Inl e \<longrightarrow>
      Score L sess cvImage = ([e], None))"
  by (simp add: Score_unfold Postprocess_def swallow_def)

theorem Score_swallows_failures_witness:
  "Preprocess_body (solid_bgr 0 0 10 20 30) = Inl Cv2Error \<and>
   Score [''0 a'', ''1 b'', ''2 c''] (\<lambda>blob. Inr [3, 2, 1]) (solid_bgr 0 0 10 20 30) =
     ([Cv2Error, OrtError], None) \<and>
   (\<exists>blob. Preprocess_body (solid_bgr 224 224 10 20 30) = Inr blob) \<and>
   Score [''0 a'', ''1 b'', ''2 c''] (\<lambda>blob. Inl OrtError) (solid_bgr 224 224 10 20 30) =
     ([OrtError], None) \<and>
   Postprocess_body [''0 a''] [3, 2, 1] = Inl IndexError \<and>
   Score [''0 a''] (\<lambda>blob. Inr [3, 2, 1]) (solid_bgr 224 224 10 20 30) = ([IndexError], None)"
proof -
  have p1: "Preprocess_body (solid_bgr 0 0 10 20 30) = Inl Cv2Error"
    by (rule Preprocess_body_empty)
  obtain blob where p2: "Preprocess_body (solid_bgr 224 224 10 20 30) = Inr blob"
    using Preprocess_body_solid [of 224 224 10 20 30] by auto
  have p3: "Postprocess_body [''0 a''] [3, 2, 1] = Inl IndexError"
    by (simp add: Postprocess_body_def np_sort_def np_argsort_def upt_rec detect_def
        list_getitem_def obj_name_of_def split_space1_def)
  have "Score [''0 a'', ''1 b'', ''2 c''] (\<lambda>blob. Inr [3, 2, 1]) (solid_bgr 0 0 10 20 30) =
          ([Cv2Error, OrtError], None)"
    using p1 Score_swallows_failures [of "solid_bgr 0 0 10 20 30" Cv2Error] by blast
  moreover have "Score [''0 a'', ''1 b'', ''2 c''] (\<lambda>blob. Inl OrtError) (solid_bgr 224 224 10 20 30) =
          ([OrtError], None)"
    using p2 Score_swallows_failures [of "solid_bgr 224 224 10 20 30" OrtError _
        "\<lambda>blob. Inl OrtError" blob]
    by blast
  moreover have "Score [''0 a''] (\<lambda>blob. Inr [3, 2, 1]) (solid_bgr 224 224 10 20 30) =
          ([IndexError], None)"
    using p2 p3 Score_swallows_failures [of "solid_bgr 224 224 10 20 30" IndexError "[''0 a'']"
        "\<lambda>blob. Inr [3, 2, 1]" blob "[3, 2, 1]"]
    by blast
  ultimately show ?thesis
    using p1 p2 p3 by blast
qed

text \<open>
  C7, as the specification states it, fails: Preprocess checks no dimensions. A
  100 x 100 x 3 image is transformed into a tensor of shape (1, 3, 100, 100) and
  nothing is logged.
\<close>

theorem Preprocess_shape_counterexample:
  "shape (solid_bgr 100 100 10 20 30) = [100, 100, 3] \<and>
   fst (Preprocess (solid_bgr 100 100 10 20 30)) = [] \<and>
   map_option shape (snd (Preprocess (solid_bgr 100 100 10 20 30))) = Some [1, 3, 100, 100]"
  by (simp add: Preprocess_def Preprocess_body_def cvtColor_BGR2RGB_def transpose_201_def
      idiv_def astype_float32_def expand_dims0_def solid_bgr_def swallow_def)

text \<open>
  C7, amended. Preprocess validates no dimensions and has no ShapeError: for every
  non-empty image with 3 or 4 channels, whatever its height and width, it logs nothing
  and returns the transformed tensor, of shape (1, 3, height, width), whose element
  (0, k, y, x) is sample (y, x, 2 - k) of the image divided by 255.
\<close>

theorem Preprocess_no_shape_check:
  "shape cvImage = [h, w, c] \<and> 0 < h \<and> 0 < w \<and> (c = 3 \<or> c = 4) \<longrightarrow>
     (\<exists>t. Preprocess cvImage = ([], Some t) \<and> shape t = [1, 3, h, w] \<and>
          (\<forall>k y x. k < 3 \<and> y < h \<and> x < w \<longrightarrow>
             item t [0, k, y, x] = real (unat (item cvImage [y, x, 2 - k])) / 255))"
proof
  assume "shape cvImage = [h, w, c] \<and> 0 < h \<and> 0 < w \<and> (c = 3 \<or> c = 4)"
  then obtain t where "Preprocess_body cvImage = Inr t" "shape t = [1, 3, h, w]"
    "\<forall>k y x. item t [0, k, y, x] = real (unat (item cvImage [y, x, 2 - k])) / 255"
    using Preprocess_body_ok [of cvImage h w c] by auto
  then show "\<exists>t. Preprocess cvImage = ([], Some t) \<and> shape t = [1, 3, h, w] \<and>
          (\<forall>k y x. k < 3 \<and> y < h \<and> x < w \<longrightarrow>
             item t [0, k, y, x] = real (unat (item cvImage [y, x, 2 - k])) / 255)"
    by (simp add: Preprocess_def swallow_def)
qed

theorem Preprocess_no_shape_check_witness:
  "shape (solid_bgr 100 100 10 20 30) = [100, 100, 3] \<and>
   (\<exists>t. Preprocess (solid_bgr 100 100 10 20 30) = ([], Some t) \<and>
        shape t = [1, 3, 100, 100] \<and>
        item t [0, 0, 99, 99] = 30 / 255 \<and> item t [0, 2, 0, 50] = 10 / 255)"
proof -
  have h: "shape (solid_bgr 100 100 10 20 30) = [100, 100, 3] \<and> (0::nat) < 100 \<and> (0::nat) < 100 \<and>
           ((3::nat) = 3 \<or> (3::nat) = 4)"
    by (simp add: shape_solid_bgr)
  with Preprocess_no_shape_check [of "solid_bgr 100 100 10 20 30" 100 100 3] obtain t where
    t: "Preprocess (solid_bgr 100 100 10 20 30) = ([], Some t)" "shape t = [1, 3, 100, 100]"
    and el: "\<forall>k y x. k < 3 \<and> y < 100 \<and> x < 100 \<longrightarrow>
               item t [0, k, y, x] = real (unat (item (solid_bgr 100 100 10 20 30) [y, x, 2 - k])) / 255"
    by blast
  have "item t [0, 0, 99, 99] = 30 / 255" "item t [0, 2, 0, 50] = 10 / 255"
    using el [rule_format, of 0 99 99] el [rule_format, of 2 0 50]
    by (simp_all add: solid_bgr_def)
  then show ?thesis
    using h t by blast
qed

text \<open>
  C8, as the specification states it, fails: a label table shorter than the score
  vector goes unnoticed while the three selected indices are inside the table. With
  three label lines and the four scores [9, 8, 7, 1], Postprocess returns a result.
\<close>

theorem Postprocess_short_table_counterexample:
  "length [''0 cat'', ''1 dog'', ''2 bird''] < length [9, 8, 7, 1 :: real] \<and>
   Postprocess [''0 cat'', ''1 dog'', ''2 bird''] [9, 8, 7, 1] =
     ([], Some [\<lparr>obj_type = ''classification'', tag_value = ''cat'', tag_confidence = 9 / 100\<rparr>,
        \<lparr>obj_type = ''classification'', tag_value = ''dog'', tag_confidence = 8 / 100\<rparr>,
        \<lparr>obj_type = ''classification'', tag_value = ''bird'', tag_confidence = 7 / 100\<rparr>])"
  by (simp add: Postprocess_def Postprocess_body_def swallow_def np_sort_def np_argsort_def
        upt_rec detect_def list_getitem_def obj_name_of_def split_space1_def)

text \<open>
  C8, amended. Postprocess fails only by an IndexError, which is caught and logged,
  and it then returns \<^verbatim>\<open>None\<close>: this happens when the vector has fewer than three
  scores, when one of the three selected indices is outside the label table, and when
  the label line at a selected index contains no space. In every other case, that is
  when the three selected indices are inside the table and their lines contain a
  space, Postprocess logs nothing and returns three results, whatever the length of
  the table: a table shorter than the vector is not detected as such.
\<close>

theorem Postprocess_index_errors:
  "(length ps < 3 \<longrightarrow> Postprocess L ps = ([IndexError], None)) \<and>
   (3 \<le> length ps \<and> (\<exists>k<3. length L \<le> rev (np_argsort ps) ! k) \<longrightarrow>
      Postprocess L ps = ([IndexError], None)) \<and>
   (3 \<le> length ps \<and>
    (\<exists>k<3. rev (np_argsort ps) ! k < length L \<and>
           CHR '' '' \<notin> set (L ! (rev (np_argsort ps) ! k))) \<longrightarrow>
      Postprocess L ps = ([IndexError], None)) \<and>
   (3 \<le> length ps \<and>
    (\<forall>k<3. rev (np_argsort ps) ! k < length L \<and> CHR '' '' \<in> set (L ! (rev (np_argsort ps) ! k))) \<longrightarrow>
      (\<exists>r. Postprocess L ps = ([], Some r) \<and> length r = 3))"
proof (intro conjI impI)
  assume "length ps < 3"
  then show "Postprocess L ps = ([IndexError], None)"
    by (simp add: Postprocess_def Postprocess_body_short swallow_def)
next
  assume "3 \<le> length ps \<and> (\<exists>k<3. length L \<le> rev (np_argsort ps) ! k)"
  then obtain k where len: "3 \<le> length ps" and k: "k < 3" "length L \<le> rev (np_argsort ps) ! k"
    by blast
  have "k < length ps" using len k(1) by simp
  then have "detect L (Arr1 (rev (np_sort ps))) (Arr1 (rev (np_argsort ps))) k = Inl IndexError"
    using k(2) by (rule detect_no_label)
  with len k(1) show "Postprocess L ps = ([IndexError], None)"
    by (rule Postprocess_detect_fail)
next
  assume "3 \<le> length ps \<and>
    (\<exists>k<3. rev (np_argsort ps) ! k < length L \<and>
           CHR '' '' \<notin> set (L ! (rev (np_argsort ps) ! k)))"
  then obtain k where len: "3 \<le> length ps" and k: "k < 3" "rev (np_argsort ps) ! k < length L"
    "CHR '' '' \<notin> set (L ! (rev (np_argsort ps) ! k))"
    by blast
  have "k < length ps" using len k(1) by simp
  then have "detect L (Arr1 (rev (np_sort ps))) (Arr1 (rev (np_argsort ps))) k = Inl IndexError"
    using k(2,3) by (simp add: detect_ok split_space1_nth1)
  with len k(1) show "Postprocess L ps = ([IndexError], None)"
    by (rule Postprocess_detect_fail)
next
  assume "3 \<le> length ps \<and>
    (\<forall>k<3. rev (np_argsort ps) ! k < length L \<and> CHR '' '' \<in> set (L ! (rev (np_argsort ps) ! k)))"
  then show "\<exists>r. Postprocess L ps = ([], Some r) \<and> length r = 3"
    using Postprocess_ok [of ps L] by blast
qed

theorem Postprocess_index_errors_witness:
  "length [5, 6 :: real] < 3 \<and> Postprocess [''0 cat'', ''1 dog''] [5, 6] = ([IndexError], None) \<and>
   3 \<le> length [1, 2, 3, 4 :: real] \<and>
   length [''0 cat'', ''1 dog''] \<le> rev (np_argsort [1, 2, 3, 4]) ! 0 \<and>
   Postprocess [''0 cat'', ''1 dog''] [1, 2, 3, 4] = ([IndexError], None) \<and>
   rev (np_argsort [9, 8, 7, 1]) = [0, 1, 2, 3] \<and>
   CHR '' '' \<notin> set ([''0cat'', ''1 dog'', ''2 bird''] ! 0) \<and>
   Postprocess [''0cat'', ''1 dog'', ''2 bird''] [9, 8, 7, 1] = ([IndexError], None) \<and>
   (\<exists>r. Postprocess [''0 cat'', ''1 dog'', ''2 bird''] [9, 8, 7, 1] = ([], Some r) \<and> length r = 3)"
proof -
  have a1: "rev (np_argsort [1, 2, 3, 4]) = [3, 2, 1, 0]"
    by (simp add: np_argsort_def upt_rec)
  have a2: "rev (np_argsort [9, 8, 7, 1]) = [0, 1, 2, 3]"
    by (simp add: np_argsort_def upt_rec)
  have h1: "length [5, 6 :: real] < 3" by simp
  have h2: "length [''0 cat'', ''1 dog''] \<le> rev (np_argsort [1, 2, 3, 4]) ! 0"
    by (simp add: a1)
  then have h2': "3 \<le> length [1, 2, 3, 4 :: real] \<and>
            (\<exists>k<3. length [''0 cat'', ''1 dog''] \<le> rev (np_argsort [1, 2, 3, 4]) ! k)"
    by (intro conjI exI [of _ 0]) simp_all
  have h3: "CHR '' '' \<notin> set ([''0cat'', ''1 dog'', ''2 bird''] ! 0)"
    by simp
  then have h3': "3 \<le> length [9, 8, 7, 1 :: real] \<and>
            (\<exists>k<3. rev (np_argsort [9, 8, 7, 1]) ! k < length [''0cat'', ''1 dog'', ''2 bird''] \<and>
               CHR '' '' \<notin> set ([''0cat'', ''1 dog'', ''2 bird''] ! (rev (np_argsort [9, 8, 7, 1]) ! k)))"
    unfolding a2 by (intro conjI exI [of _ 0]) simp_all
  have h4: "3 \<le> length [9, 8, 7, 1 :: real] \<and>
      (\<forall>k<3. rev (np_argsort [9, 8, 7, 1]) ! k < length [''0 cat'', ''1 dog'', ''2 bird''] \<and>
      CHR '' '' \<in> set ([''0 cat'', ''1 dog'', ''2 bird''] ! (rev (np_argsort [9, 8, 7, 1]) ! k)))"
    unfolding a2 by (simp add: less_3_cases)
  have r1: "Postprocess [''0 cat'', ''1 dog''] [5, 6] = ([IndexError], None)"
    using h1 Postprocess_index_errors [of "[5, 6]" "[''0 cat'', ''1 dog'']"] by blast
  have r2: "Postprocess [''0 cat'', ''1 dog''] [1, 2, 3, 4] = ([IndexError], None)"
    using h2' Postprocess_index_errors [of "[1, 2, 3, 4]" "[''0 cat'', ''1 dog'']"] by blast
  have r3: "Postprocess [''0cat'', ''1 dog'', ''2 bird''] [9, 8, 7, 1] = ([IndexError], None)"
    using h3' Postprocess_index_errors [of "[9, 8, 7, 1]" "[''0cat'', ''1 dog'', ''2 bird'']"] by blast
  have r4: "\<exists>r. Postprocess [''0 cat'', ''1 dog'', ''2 bird''] [9, 8, 7, 1] = ([], Some r) \<and> length r = 3"
    using h4 Postprocess_index_errors [of "[9, 8, 7, 1]" "[''0 cat'', ''1 dog'', ''2 bird'']"] by blast
  show ?thesis
    using h1 h2 h3 a2 r1 r2 r3 r4 by simp
qed

text \<open>
  C10. Whenever Postprocess returns a result, the values and the indices sorted by the
  two separate calls agree at each rank \<open>k < 3\<close>: \<^verbatim>\<open>sorted_prob[k]\<close> is the score
  stored at \<^verbatim>\<open>sorted_indices[k]\<close>, the returned confidence is that score divided
  by 100, and the returned label is the name looked up at that index.
\<close>

theorem Postprocess_pairing:
  assumes "Postprocess L ps = (lg, Some r)" and "k < 3"
  shows "\<exists>sorted_prob sorted_indices.
           rev_slice (squeeze (np_sort ps)) = Inr (Arr1 sorted_prob) \<and>
           rev_slice (squeeze (np_argsort ps)) = Inr (Arr1 sorted_indices) \<and>
           sorted_indices ! k < length ps \<and>
           sorted_prob ! k = ps ! (sorted_indices ! k) \<and>
           tag_confidence (r ! k) = ps ! (sorted_indices ! k) / 100 \<and>
           obj_name_of (L ! (sorted_indices ! k)) = Inr (tag_value (r ! k))"
proof -
  have body: "Postprocess_body L ps = Inr r"
    using assms(1) by (simp add: Postprocess_def swallow_Some)
  from Postprocess_body_Inr [OF body] have len: "3 \<le> length ps"
    and d: "detect L (Arr1 (rev (np_sort ps))) (Arr1 (rev (np_argsort ps))) k = Inr (r ! k)"
    using assms(2) by auto
  have k: "k < length ps" using len assms(2) by simp
  have "2 \<le> length ps" using len by simp
  note sl = squeezed_slices [OF this]
  show ?thesis
    using sl detect_Inr [OF d] np_sort_nth_argsort [OF k] rev_np_argsort_less [OF k]
    by simp
qed

theorem Postprocess_pairing_witness:
  "Postprocess [''0 a'', ''1 b'', ''2 c'', ''3 d''] [1, 9, 5, 7] =
     ([], Some [\<lparr>obj_type = ''classification'', tag_value = ''b'', tag_confidence = 9 / 100\<rparr>,
        \<lparr>obj_type = ''classification'', tag_value = ''d'', tag_confidence = 7 / 100\<rparr>,
        \<lparr>obj_type = ''classification'', tag_value = ''c'', tag_confidence = 5 / 100\<rparr>]) \<and>
   (\<exists>sorted_prob sorted_indices.
      rev_slice (squeeze (np_sort [1, 9, 5, 7])) = Inr (Arr1 sorted_prob) \<and>
      rev_slice (squeeze (np_argsort [1, 9, 5, 7])) = Inr (Arr1 sorted_indices) \<and>
      sorted_indices ! 1 = 3 \<and> sorted_prob ! 1 = [1, 9, 5, 7] ! 3 \<and>
      obj_name_of ([''0 a'', ''1 b'', ''2 c'', ''3 d''] ! (sorted_indices ! 1)) = Inr ''d'')"
proof -
  have run: "Postprocess [''0 a'', ''1 b'', ''2 c'', ''3 d''] [1, 9, 5, 7] =
     ([], Some [\<lparr>obj_type = ''classification'', tag_value = ''b'', tag_confidence = 9 / 100\<rparr>,
        \<lparr>obj_type = ''classification'', tag_value = ''d'', tag_confidence = 7 / 100\<rparr>,
        \<lparr>obj_type = ''classification'', tag_value = ''c'', tag_confidence = 5 / 100\<rparr>])"
    by (simp add: Postprocess_def Postprocess_body_def swallow_def np_sort_def np_argsort_def
        upt_rec detect_def list_getitem_def obj_name_of_def split_space1_def)
  have k: "(1::nat) < 3" by simp
  have idx: "rev_slice (squeeze (np_argsort [1, 9, 5, 7])) = Inr (Arr1 [1, 3, 2, 0])"
    by (simp add: np_argsort_def upt_rec)
  show ?thesis
    using run Postprocess_pairing [OF run k] idx by simp
qed

end
